theory Spec2Isabelle
  imports Complex_Main "HOL-Library.Log_Nat"
begin

section \<open>JavaScript numbers\<close>

text \<open>
  Every amount and balance of \<^verbatim>\<open>server.js\<close> is a JavaScript Number: an IEEE 754
  binary64 value. A finite value is carried as the rational it denotes; the two
  infinities and NaN are separate values. The model has a single zero. The sign
  of a zero is nothing this program can observe: it compares numbers, tests them
  for truth, adds and subtracts them, multiplies by \<^verbatim>\<open>1.10\<close> and by \<^verbatim>\<open>100\<close> and
  divides by \<^verbatim>\<open>100\<close>, and in each of these \<^verbatim>\<open>-0\<close> behaves as \<^verbatim>\<open>+0\<close> does.
\<close>

datatype jsnum = Fin rat | PInf | NInf | NaN

definition pow2 :: "int \<Rightarrow> rat" where
  "pow2 k = (if 0 \<le> k then 2 ^ nat k else 1 / 2 ^ nat (- k))"

text \<open>\<open>flog2 q\<close> is \<open>\<lfloor>log\<^sub>2 q\<rfloor>\<close> for \<open>q > 0\<close>, computed on integers.\<close>

definition flog2 :: "rat \<Rightarrow> int" where
  "flog2 q = (if 1 \<le> q then bitlen \<lfloor>q\<rfloor> - 1 else - bitlen (\<lceil>1 / q\<rceil> - 1))"

definition round_half_even :: "rat \<Rightarrow> int" where
  "round_half_even x = (let f = \<lfloor>x\<rfloor>; d = x - of_int f in
     if d < 1 / 2 then f else if 1 / 2 < d then f + 1 else if even f then f else f + 1)"

text \<open>
  Rounding of an exact result to binary64, round-to-nearest, ties-to-even: the
  spacing of the doubles around \<open>q\<close> is \<open>2 ^ p\<close> with \<open>p = max (\<lfloor>log\<^sub>2 |q|\<rfloor> - 52) (-1074)\<close>
  (53 significant bits, subnormals below \<open>2 ^ -1022\<close>); a rounded magnitude of
  \<open>2 ^ 1024\<close> or more overflows to an infinity.
\<close>

definition rnd :: "rat \<Rightarrow> jsnum" where
  "rnd q = (if q = 0 then Fin 0 else
     let p = max (flog2 \<bar>q\<bar> - 52) (- 1074);
         v = of_int (round_half_even (\<bar>q\<bar> / pow2 p)) * pow2 p
     in if 1024 \<le> flog2 v then (if 0 < q then PInf else NInf)
        else Fin (if 0 < q then v else - v))"

fun fneg :: "jsnum \<Rightarrow> jsnum" where
  "fneg (Fin x) = Fin (- x)"
| "fneg PInf = NInf"
| "fneg NInf = PInf"
| "fneg NaN = NaN"

text \<open>\<^verbatim>\<open>x + y\<close>\<close>

fun fadd :: "jsnum \<Rightarrow> jsnum \<Rightarrow> jsnum" where
  "fadd NaN _ = NaN"
| "fadd _ NaN = NaN"
| "fadd PInf NInf = NaN"
| "fadd NInf PInf = NaN"
| "fadd PInf _ = PInf"
| "fadd _ PInf = PInf"
| "fadd NInf _ = NInf"
| "fadd _ NInf = NInf"
| "fadd (Fin x) (Fin y) = rnd (x + y)"

text \<open>\<^verbatim>\<open>x - y\<close>\<close>

fun fsub :: "jsnum \<Rightarrow> jsnum \<Rightarrow> jsnum" where
  "fsub NaN _ = NaN"
| "fsub _ NaN = NaN"
| "fsub PInf PInf = NaN"
| "fsub NInf NInf = NaN"
| "fsub PInf _ = PInf"
| "fsub _ NInf = PInf"
| "fsub NInf _ = NInf"
| "fsub _ PInf = NInf"
| "fsub (Fin x) (Fin y) = rnd (x - y)"

text \<open>\<^verbatim>\<open>x * y\<close>\<close>

fun fmul :: "jsnum \<Rightarrow> jsnum \<Rightarrow> jsnum" where
  "fmul NaN _ = NaN"
| "fmul _ NaN = NaN"
| "fmul (Fin x) (Fin y) = rnd (x * y)"
| "fmul (Fin x) PInf = (if x = 0 then NaN else if 0 < x then PInf else NInf)"
| "fmul (Fin x) NInf = (if x = 0 then NaN else if 0 < x then NInf else PInf)"
| "fmul PInf (Fin y) = (if y = 0 then NaN else if 0 < y then PInf else NInf)"
| "fmul NInf (Fin y) = (if y = 0 then NaN else if 0 < y then NInf else PInf)"
| "fmul PInf PInf = PInf"
| "fmul PInf NInf = NInf"
| "fmul NInf PInf = NInf"
| "fmul NInf NInf = PInf"

text \<open>\<^verbatim>\<open>x / y\<close>; the zero divisor is \<^verbatim>\<open>+0\<close>.\<close>

fun fdiv :: "jsnum \<Rightarrow> jsnum \<Rightarrow> jsnum" where
  "fdiv NaN _ = NaN"
| "fdiv _ NaN = NaN"
| "fdiv (Fin x) (Fin y) =
     (if y = 0 then (if x = 0 then NaN else if 0 < x then PInf else NInf)
      else rnd (x / y))"
| "fdiv (Fin x) PInf = Fin 0"
| "fdiv (Fin x) NInf = Fin 0"
| "fdiv PInf (Fin y) = (if 0 \<le> y then PInf else NInf)"
| "fdiv NInf (Fin y) = (if 0 \<le> y then NInf else PInf)"
| "fdiv PInf PInf = NaN"
| "fdiv PInf NInf = NaN"
| "fdiv NInf PInf = NaN"
| "fdiv NInf NInf = NaN"

text \<open>\<^verbatim>\<open>x < y\<close>, \<^verbatim>\<open>x <= y\<close> and \<^verbatim>\<open>x > y\<close>: false as soon as one side is NaN.\<close>

fun jlt :: "jsnum \<Rightarrow> jsnum \<Rightarrow> bool" where
  "jlt NaN _ = False"
| "jlt _ NaN = False"
| "jlt (Fin x) (Fin y) = (x < y)"
| "jlt _ NInf = False"
| "jlt NInf _ = True"
| "jlt PInf _ = False"
| "jlt _ PInf = True"

fun jle :: "jsnum \<Rightarrow> jsnum \<Rightarrow> bool" where
  "jle NaN _ = False"
| "jle _ NaN = False"
| "jle (Fin x) (Fin y) = (x \<le> y)"
| "jle NInf _ = True"
| "jle _ PInf = True"
| "jle _ NInf = False"
| "jle PInf _ = False"

definition jgt :: "jsnum \<Rightarrow> jsnum \<Rightarrow> bool" where
  "jgt x y = jlt y x"

definition isNaN :: "jsnum \<Rightarrow> bool" where
  "isNaN x = (x = NaN)"

text \<open>
  \<^verbatim>\<open>Math.round(x)\<close>: the integer closest to \<open>x\<close>, the one towards \<open>+\<infinity>\<close> of two
  equally close ones. On a double the result is a double again, so nothing is
  rounded twice.
\<close>

fun Math_round :: "jsnum \<Rightarrow> jsnum" where
  "Math_round (Fin x) = Fin (of_int \<lfloor>x + 1 / 2\<rfloor>)"
| "Math_round PInf = PInf"
| "Math_round NInf = NInf"
| "Math_round NaN = NaN"

text \<open>The literal \<^verbatim>\<open>1.10\<close> denotes the double nearest to \<open>11/10\<close>.\<close>

definition lit_1_10 :: jsnum where
  "lit_1_10 = rnd (11 / 10)"

section \<open>Request values\<close>

text \<open>
  The \<^verbatim>\<open>amount\<close> of a JSON body (\<^verbatim>\<open>bodyParser.json\<close>): absent, \<^verbatim>\<open>null\<close>, a boolean,
  a number, a string, or an array or object, carried with the string that
  \<^verbatim>\<open>String(v)\<close> gives for it (a body whose object replaces both \<^verbatim>\<open>toString\<close> and
  \<^verbatim>\<open>valueOf\<close> by values that are no functions, on which the conversion throws, is
  left out). \<^verbatim>\<open>Number(v)\<close> on a string is the runtime's StringToNumber, which is
  not code of this program: it is the parameter \<open>sn\<close> of every handler. The other
  fields of a body (\<^verbatim>\<open>name\<close>, \<^verbatim>\<open>phone\<close>, \<^verbatim>\<open>password\<close>, \<^verbatim>\<open>payTo\<close>) are strings, absent
  when empty.
\<close>

datatype jsval = JUndefined | JNull | JBool bool | JNum jsnum | JStr string | JObj string

text \<open>\<^verbatim>\<open>!v\<close>\<close>

fun falsy :: "jsval \<Rightarrow> bool" where
  "falsy JUndefined = True"
| "falsy JNull = True"
| "falsy (JBool b) = (b = False)"
| "falsy (JNum n) = (n = Fin 0 \<or> n = NaN)"
| "falsy (JStr s) = (s = [])"
| "falsy (JObj s) = False"

fun Number :: "(string \<Rightarrow> jsnum) \<Rightarrow> jsval \<Rightarrow> jsnum" where
  "Number sn JUndefined = NaN"
| "Number sn JNull = Fin 0"
| "Number sn (JBool b) = (if b then Fin 1 else Fin 0)"
| "Number sn (JNum n) = n"
| "Number sn (JStr s) = sn s"
| "Number sn (JObj s) = sn s"

text \<open>\<^verbatim>\<open>Number(user.balance || 0)\<close>\<close>

definition balance_or_0 :: "jsnum \<Rightarrow> jsnum" where
  "balance_or_0 b = (if falsy (JNum b) then Fin 0 else b)"

section \<open>Data model\<close>

datatype tx_type = TDeposit | TWithdraw | TInvest

text \<open>The \<^verbatim>\<open>meta\<close> object of a transaction: a note, or principal and bonus.\<close>

datatype tx_meta = Note string | Invested jsnum jsnum

record tx =
  tx_id :: string
  tx_type :: tx_type
  tx_amount :: jsnum
  tx_createdAt :: string
  tx_meta :: tx_meta

record user =
  phone :: string
  name :: string
  salt :: string
  passHash :: string
  balance :: jsnum
  txs :: "tx list"
  picture :: "string option"
  createdAt :: string

datatype status = PENDING | SUCCESS | FAILED | CANCELLED

record payment =
  p_id :: string
  p_phone :: string
  p_payTo :: string
  p_amount :: jsnum
  p_status :: status
  p_createdAt :: string

text \<open>
  A timer set by \<^verbatim>\<open>setTimeout\<close>: the callback's closure holds the payment object,
  the user object and the amount \<^verbatim>\<open>a\<close>. Objects are named by their keys: an entry
  of \<^verbatim>\<open>users\<close> is never replaced or deleted, and an entry of \<^verbatim>\<open>payments\<close> is
  replaced only if \<^verbatim>\<open>nanoid(12)\<close> repeats an id, which the model leaves out.
\<close>

record timer =
  t_payment :: string
  t_user :: string
  t_amount :: jsnum

text \<open>
  The process state: the two in-memory objects \<^verbatim>\<open>users\<close> and \<^verbatim>\<open>payments\<close>, the
  session map, the pending timers, and what the two JSON files hold. The objects
  are maps from keys to records; the properties every JavaScript object inherits
  (a phone such as \<^verbatim>\<open>constructor\<close>) are left out.
\<close>

record state =
  users :: "string \<rightharpoonup> user"
  payments :: "string \<rightharpoonup> payment"
  sessions :: "string \<rightharpoonup> string"
  timers :: "timer list"
  users_file :: "string \<rightharpoonup> user"
  payments_file :: "string \<rightharpoonup> payment"

text \<open>
  What a handler answers: \<^verbatim>\<open>res.status(c).json({ error: e })\<close> is \<open>Err c e\<close>; the
  others are the \<^verbatim>\<open>res.json\<close> bodies; \<open>Thrown\<close> is an exception that left the
  handler (only \<^verbatim>\<open>saveAll\<close> throws here).
\<close>

datatype response =
    Err nat string
  | OkToken string
  | OkBalance jsnum
  | OkPayment string
  | OkTrue
  | Thrown

text \<open>The outcome of the two \<^verbatim>\<open>writeJsonSync\<close> calls of one \<^verbatim>\<open>saveAll\<close>.\<close>

datatype disk = DiskOk | UsersWriteFails | PaymentsWriteFails

section \<open>Operations\<close>

text \<open>\<^verbatim>\<open>saveAll\<close>: the flag tells whether it returned (\<open>True\<close>) or threw.\<close>

definition saveAll :: "disk \<Rightarrow> state \<Rightarrow> bool \<times> state" where
  "saveAll dk st = (case dk of
       UsersWriteFails \<Rightarrow> (False, st)
     | PaymentsWriteFails \<Rightarrow> (False, st\<lparr>users_file := users st\<rparr>)
     | DiskOk \<Rightarrow> (True, st\<lparr>users_file := users st, payments_file := payments st\<rparr>))"

text \<open>
  \<^verbatim>\<open>POST /api/signup\<close>. The salt and hash of \<^verbatim>\<open>pbkdf2Hash\<close>, the token of
  \<^verbatim>\<open>nanoid(24)\<close> and the clock are inputs.
\<close>

definition signup ::
  "state \<Rightarrow> string \<Rightarrow> string \<Rightarrow> string \<Rightarrow> string \<Rightarrow> string \<Rightarrow> string \<Rightarrow> string \<Rightarrow> disk
    \<Rightarrow> response \<times> state" where
  "signup st nm ph pw slt hsh token now dk =
     (if nm = [] \<or> ph = [] \<or> pw = [] then (Err 400 ''missing fields'', st)
      else case users st ph of
        Some u \<Rightarrow> (Err 400 ''account exists'', st)
      | None \<Rightarrow>
          let u = \<lparr>phone = ph, name = nm, salt = slt, passHash = hsh,
                   balance = Fin 0, txs = [], picture = None, createdAt = now\<rparr>;
              st1 = st\<lparr>users := (users st)(ph \<mapsto> u)\<rparr>
          in case saveAll dk st1 of
               (False, st2) \<Rightarrow> (Thrown, st2)
             | (True, st2) \<Rightarrow> (OkToken token, st2\<lparr>sessions := (sessions st2)(token \<mapsto> ph)\<rparr>))"

text \<open>\<^verbatim>\<open>POST /api/deposit\<close>; \<open>nid\<close> is the result of \<^verbatim>\<open>nanoid(8)\<close>.\<close>

definition deposit ::
  "(string \<Rightarrow> jsnum) \<Rightarrow> state \<Rightarrow> string \<Rightarrow> jsval \<Rightarrow> string \<Rightarrow> string \<Rightarrow> disk
    \<Rightarrow> response \<times> state" where
  "deposit sn st ph amount nid now dk =
     (if ph = [] \<or> falsy amount then (Err 400 ''missing'', st)
      else case users st ph of
        None \<Rightarrow> (Err 404 ''no user'', st)
      | Some u \<Rightarrow>
          let a = Number sn amount in
          if isNaN a \<or> jle a (Fin 0) then (Err 400 ''invalid amount'', st)
          else
            let b = fadd (balance_or_0 (balance u)) a;
                t = \<lparr>tx_id = ''tx_'' @ nid, tx_type = TDeposit, tx_amount = a,
                     tx_createdAt = now, tx_meta = Note ''Manual deposit''\<rparr>;
                st1 = st\<lparr>users := (users st)(ph \<mapsto> u\<lparr>balance := b, txs := txs u @ [t]\<rparr>)\<rparr>
            in case saveAll dk st1 of
                 (False, st2) \<Rightarrow> (Thrown, st2)
               | (True, st2) \<Rightarrow> (OkBalance b, st2))"

text \<open>\<^verbatim>\<open>POST /api/withdraw\<close>\<close>

definition withdraw ::
  "(string \<Rightarrow> jsnum) \<Rightarrow> state \<Rightarrow> string \<Rightarrow> jsval \<Rightarrow> string \<Rightarrow> string \<Rightarrow> disk
    \<Rightarrow> response \<times> state" where
  "withdraw sn st ph amount nid now dk =
     (if ph = [] \<or> falsy amount then (Err 400 ''missing'', st)
      else case users st ph of
        None \<Rightarrow> (Err 404 ''no user'', st)
      | Some u \<Rightarrow>
          let a = Number sn amount in
          if isNaN a \<or> jle a (Fin 0) then (Err 400 ''invalid amount'', st)
          else if jgt a (balance u) then (Err 400 ''insufficient balance'', st)
          else
            let b = fsub (balance_or_0 (balance u)) a;
                t = \<lparr>tx_id = ''tx_'' @ nid, tx_type = TWithdraw, tx_amount = a,
                     tx_createdAt = now, tx_meta = Note ''Manual withdrawal''\<rparr>;
                st1 = st\<lparr>users := (users st)(ph \<mapsto> u\<lparr>balance := b, txs := txs u @ [t]\<rparr>)\<rparr>
            in case saveAll dk st1 of
                 (False, st2) \<Rightarrow> (Thrown, st2)
               | (True, st2) \<Rightarrow> (OkBalance b, st2))"

text \<open>
  \<^verbatim>\<open>POST /api/payment/create\<close>; \<open>nid\<close> is the result of \<^verbatim>\<open>nanoid(12)\<close>. The timer
  is set only after \<^verbatim>\<open>saveAll\<close> has returned.
\<close>

definition payment_create ::
  "(string \<Rightarrow> jsnum) \<Rightarrow> state \<Rightarrow> string \<Rightarrow> jsval \<Rightarrow> string \<Rightarrow> string \<Rightarrow> string \<Rightarrow> disk
    \<Rightarrow> response \<times> state" where
  "payment_create sn st ph amount payTo nid now dk =
     (if ph = [] \<or> falsy amount \<or> payTo = [] then (Err 400 ''missing'', st)
      else case users st ph of
        None \<Rightarrow> (Err 404 ''no user'', st)
      | Some u \<Rightarrow>
          let a = Number sn amount in
          if isNaN a \<or> jlt a (Fin 250) then (Err 400 ''invalid amount, minimum 250'', st)
          else
            let p = \<lparr>p_id = nid, p_phone = ph, p_payTo = payTo, p_amount = a,
                     p_status = PENDING, p_createdAt = now\<rparr>;
                st1 = st\<lparr>payments := (payments st)(nid \<mapsto> p)\<rparr>
            in case saveAll dk st1 of
                 (False, st2) \<Rightarrow> (Thrown, st2)
               | (True, st2) \<Rightarrow>
                   (OkPayment nid,
                    st2\<lparr>timers := timers st2 @ [\<lparr>t_payment = nid, t_user = ph, t_amount = a\<rparr>]\<rparr>))"

text \<open>\<^verbatim>\<open>Math.round((a * 1.10) * 100) / 100\<close>\<close>

definition credited :: "jsnum \<Rightarrow> jsnum" where
  "credited a = fdiv (Math_round (fmul (fmul a lit_1_10) (Fin 100))) (Fin 100)"

text \<open>
  The callback given to \<^verbatim>\<open>setTimeout\<close>. \<open>ok\<close> is the outcome of
  \<^verbatim>\<open>Math.random() < 0.85\<close>, \<open>nid\<close> the result of \<^verbatim>\<open>nanoid(8)\<close>. The flag tells whether
  the callback returned or \<^verbatim>\<open>saveAll\<close> threw out of it. The two objects of the
  closure exist whenever the timer does; the model leaves the state alone should
  one be missing.
\<close>

definition settle :: "state \<Rightarrow> timer \<Rightarrow> bool \<Rightarrow> string \<Rightarrow> string \<Rightarrow> disk \<Rightarrow> bool \<times> state" where
  "settle st t ok nid now dk =
     (case (payments st (t_payment t), users st (t_user t)) of
        (Some p, Some u) \<Rightarrow>
          if ok then
            let a = t_amount t;
                c = credited a;
                x = \<lparr>tx_id = ''tx_'' @ nid, tx_type = TInvest, tx_amount = c,
                     tx_createdAt = now, tx_meta = Invested a (fsub c a)\<rparr>;
                st1 = st\<lparr>payments := (payments st)(t_payment t \<mapsto> p\<lparr>p_status := SUCCESS\<rparr>),
                         users := (users st)(t_user t \<mapsto>
                           u\<lparr>balance := fadd (balance_or_0 (balance u)) c, txs := txs u @ [x]\<rparr>)\<rparr>
            in saveAll dk st1
          else
            saveAll dk (st\<lparr>payments := (payments st)(t_payment t \<mapsto> p\<lparr>p_status := FAILED\<rparr>)\<rparr>)
      | _ \<Rightarrow> (True, st))"

text \<open>The \<open>k\<close>-th pending timer expires: it is gone, and its callback runs.\<close>

definition fire :: "state \<Rightarrow> nat \<Rightarrow> bool \<Rightarrow> string \<Rightarrow> string \<Rightarrow> disk \<Rightarrow> bool \<times> state" where
  "fire st k ok nid now dk =
     (if k < length (timers st)
      then settle (st\<lparr>timers := take k (timers st) @ drop (Suc k) (timers st)\<rparr>)
             (timers st ! k) ok nid now dk
      else (True, st))"

text \<open>\<^verbatim>\<open>POST /api/payment/cancel/:id\<close>\<close>

definition payment_cancel :: "state \<Rightarrow> string \<Rightarrow> disk \<Rightarrow> response \<times> state" where
  "payment_cancel st pid dk =
     (case payments st pid of
        None \<Rightarrow> (Err 404 ''not found'', st)
      | Some p \<Rightarrow>
          if p_status p = PENDING then
            (case saveAll dk (st\<lparr>payments := (payments st)(pid \<mapsto> p\<lparr>p_status := CANCELLED\<rparr>)\<rparr>) of
               (False, st2) \<Rightarrow> (Thrown, st2)
             | (True, st2) \<Rightarrow> (OkTrue, st2))
          else (Err 400 ''cannot cancel'', st))"

text \<open>The state of a process started on empty files.\<close>

definition init :: state where
  "init = \<lparr>users = Map.empty, payments = Map.empty, sessions = Map.empty, timers = [],
           users_file = Map.empty, payments_file = Map.empty\<rparr>"

section \<open>The properties, in the specification's words\<close>

text \<open>
  The signed amount of a recorded transaction (deposit and invest positive,
  withdraw negative) and the sum of a history, taken in order from zero with the
  program's own addition.
\<close>

definition tx_delta :: "tx \<Rightarrow> jsnum" where
  "tx_delta t = (case tx_type t of TWithdraw \<Rightarrow> fneg (tx_amount t) | _ \<Rightarrow> tx_amount t)"

definition ledger_sum :: "tx list \<Rightarrow> jsnum" where
  "ledger_sum ts = foldl fadd (Fin 0) (map tx_delta ts)"

text \<open>Half-up rounding of an exact amount to two decimal places.\<close>

definition round2_half_up :: "rat \<Rightarrow> rat" where
  "round2_half_up q = of_int \<lfloor>q * 100 + 1 / 2\<rfloor> / 100"

text \<open>The error kinds of the specification, as the handlers answer them.\<close>

abbreviation InvalidAmount :: response where
  "InvalidAmount \<equiv> Err 400 ''invalid amount''"

abbreviation InvalidAmountMin :: response where
  "InvalidAmountMin \<equiv> Err 400 ''invalid amount, minimum 250''"

abbreviation InsufficientBalance :: response where
  "InsufficientBalance \<equiv> Err 400 ''insufficient balance''"

abbreviation CannotCancel :: response where
  "CannotCancel \<equiv> Err 400 ''cannot cancel''"

abbreviation Missing :: response where
  "Missing \<equiv> Err 400 ''missing''"

text \<open>
  What the caller gets when the write to disk fails: an answer the handler gives
  before \<^verbatim>\<open>saveAll\<close> stays, any other becomes the exception.
\<close>

definition raised :: "response \<Rightarrow> response" where
  "raised r = (case r of Err c e \<Rightarrow> Err c e | _ \<Rightarrow> Thrown)"

text \<open>
  The ledger invariant of one account: the balance is the sum of its history and
  is a number that is not negative.
\<close>

definition ledger_ok :: "user \<Rightarrow> bool" where
  "ledger_ok u = (balance u = ledger_sum (txs u) \<and> jle (Fin 0) (balance u))"

text \<open>
  Sequences of ledger operations on one account, each run with the files
  writable: a deposit, a withdrawal, a settlement credit (the timer callback with
  a successful draw). An operation is bounded when a withdrawal's amount is not
  \<^verbatim>\<open>Infinity\<close> and a credit's principal passed the minimum of 250.
\<close>

datatype ledger_op =
    OpDeposit jsval string string
  | OpWithdraw jsval string string
  | OpCredit string jsnum string string

fun apply_op :: "(string \<Rightarrow> jsnum) \<Rightarrow> string \<Rightarrow> state \<Rightarrow> ledger_op \<Rightarrow> state" where
  "apply_op sn ph st (OpDeposit amount nid now) = snd (deposit sn st ph amount nid now DiskOk)"
| "apply_op sn ph st (OpWithdraw amount nid now) = snd (withdraw sn st ph amount nid now DiskOk)"
| "apply_op sn ph st (OpCredit pid a nid now) =
     snd (settle st \<lparr>t_payment = pid, t_user = ph, t_amount = a\<rparr> True nid now DiskOk)"

fun op_bounded :: "(string \<Rightarrow> jsnum) \<Rightarrow> ledger_op \<Rightarrow> bool" where
  "op_bounded sn (OpDeposit amount nid now) = True"
| "op_bounded sn (OpWithdraw amount nid now) = (Number sn amount \<noteq> PInf)"
| "op_bounded sn (OpCredit pid a nid now) = jle (Fin 250) a"

section \<open>Concrete runs\<close>

text \<open>A StringToNumber for the runs below, which send numbers only.\<close>

definition sn0 :: "string \<Rightarrow> jsnum" where
  "sn0 s = NaN"

text \<open>One account, just signed up.\<close>

definition st_signed :: state where
  "st_signed = snd (signup init ''Asha'' ''0700'' ''pw'' ''5a17'' ''c0de'' ''tok1'' ''t0'' DiskOk)"

text \<open>The account after a deposit of 500.\<close>

definition st_funded :: state where
  "st_funded = snd (deposit sn0 st_signed ''0700'' (JNum (Fin 500)) ''d1'' ''t1'' DiskOk)"

text \<open>A payment of 250 created for the fresh account, then cancelled.\<close>

definition st_pending :: state where
  "st_pending =
     snd (payment_create sn0 st_signed ''0700'' (JNum (Fin 250)) ''X'' ''pay1'' ''t1'' DiskOk)"

definition st_cancelled :: state where
  "st_cancelled = snd (payment_cancel st_pending ''pay1'' DiskOk)"

text \<open>A payment of 1000 created for the funded account.\<close>

definition st_invest :: state where
  "st_invest =
     snd (payment_create sn0 st_funded ''0700'' (JNum (Fin 1000)) ''X'' ''pay2'' ''t2'' DiskOk)"

text \<open>
  The fresh account after a deposit and a withdrawal of \<^verbatim>\<open>Infinity\<close> each (the JSON
  number \<^verbatim>\<open>1e999\<close> parses to it).
\<close>

definition st_unbounded :: state where
  "st_unbounded =
     snd (withdraw sn0
       (snd (deposit sn0 st_signed ''0700'' (JNum PInf) ''d1'' ''t1'' DiskOk))
       ''0700'' (JNum PInf) ''w1'' ''t2'' DiskOk)"

section \<open>The number model\<close>

lemma pow2_pos: "0 < pow2 k"
  by (simp add: pow2_def)

text \<open>\<open>flog2\<close> is the integer logarithm: \<open>2 ^ flog2 q \<le> q < 2 ^ (flog2 q + 1)\<close>.\<close>

lemma flog2_bounds:
  assumes "0 < q"
  shows "pow2 (flog2 q) \<le> q \<and> q < pow2 (flog2 q + 1)"
proof (cases "1 \<le> q")
  case True
  define n where "n = \<lfloor>q\<rfloor>"
  have n: "0 < n" using True by (simp add: n_def)
  have b: "2 ^ nat (bitlen n - 1) \<le> n \<and> n < 2 ^ nat (bitlen n)"
    using bitlen_bounds [OF n] .
  have k: "1 \<le> bitlen n" using n bitlen_eq_zero_iff [of n] bitlen_nonneg [of n] by linarith
  have f: "flog2 q = bitlen n - 1" using True by (simp add: flog2_def n_def)
  have l: "of_int n \<le> q" and u: "q < of_int n + 1" unfolding n_def by linarith+
  have p1: "(2::rat) ^ nat (bitlen n - 1) \<le> of_int n"
  proof -
    have "(of_int (2 ^ nat (bitlen n - 1)) :: rat) \<le> of_int n"
      using b by (simp only: of_int_le_iff)
    then show ?thesis by simp
  qed
  have p2: "(2::rat) ^ nat (bitlen n - 1) \<le> q" using p1 l by (rule order_trans)
  have e1: "pow2 (flog2 q) = 2 ^ nat (bitlen n - 1)" using k by (simp add: f pow2_def)
  have lo: "pow2 (flog2 q) \<le> q" unfolding e1 by (rule p2)
  have "n + 1 \<le> 2 ^ nat (bitlen n)" using b by simp
  then have "(of_int (n + 1) :: rat) \<le> of_int (2 ^ nat (bitlen n))"
    by (simp only: of_int_le_iff)
  then have p3: "(of_int n :: rat) + 1 \<le> 2 ^ nat (bitlen n)"
    by simp
  have p4: "q < 2 ^ nat (bitlen n)" using u p3 by (rule less_le_trans)
  have e2: "pow2 (flog2 q + 1) = 2 ^ nat (bitlen n)" using k by (simp add: f pow2_def)
  have hi: "q < pow2 (flog2 q + 1)" unfolding e2 by (rule p4)
  show ?thesis using lo hi by simp
next
  case False
  define m where "m = \<lceil>1 / q\<rceil> - 1"
  have r: "1 < 1 / q" using assms False by simp
  then have m: "0 < m" unfolding m_def by linarith
  have b: "2 ^ nat (bitlen m - 1) \<le> m \<and> m < 2 ^ nat (bitlen m)"
    using bitlen_bounds [OF m] .
  have k: "1 \<le> bitlen m" using m bitlen_eq_zero_iff [of m] bitlen_nonneg [of m] by linarith
  have f: "flog2 q = - bitlen m" using False by (simp add: flog2_def m_def)
  have l: "of_int m < 1 / q" and u: "1 / q \<le> of_int m + 1" unfolding m_def by linarith+
  have "m + 1 \<le> 2 ^ nat (bitlen m)" using b by simp
  then have "(of_int (m + 1) :: rat) \<le> of_int (2 ^ nat (bitlen m))"
    by (simp only: of_int_le_iff)
  then have p3: "(of_int m :: rat) + 1 \<le> 2 ^ nat (bitlen m)"
    by simp
  have p4: "1 / q \<le> 2 ^ nat (bitlen m)" using u p3 by (rule order_trans)
  have p5: "1 / 2 ^ nat (bitlen m) \<le> q"
  proof -
    have "1 \<le> 2 ^ nat (bitlen m) * q" using p4 assms by (simp add: field_simps)
    then show ?thesis by (simp add: field_simps)
  qed
  have e1: "pow2 (flog2 q) = 1 / 2 ^ nat (bitlen m)" using k by (simp add: f pow2_def)
  have lo: "pow2 (flog2 q) \<le> q" unfolding e1 by (rule p5)
  have p1: "(2::rat) ^ nat (bitlen m - 1) \<le> of_int m"
  proof -
    have "(of_int (2 ^ nat (bitlen m - 1)) :: rat) \<le> of_int m"
      using b by (simp only: of_int_le_iff)
    then show ?thesis by simp
  qed
  have p2: "2 ^ nat (bitlen m - 1) < 1 / q" using p1 l by (rule le_less_trans)
  have p6: "q < 1 / 2 ^ nat (bitlen m - 1)"
  proof -
    have "2 ^ nat (bitlen m - 1) * q < 1" using p2 assms by (simp add: field_simps)
    then show ?thesis by (simp add: field_simps)
  qed
  have e2: "pow2 (flog2 q + 1) = 1 / 2 ^ nat (bitlen m - 1)"
    using k by (auto simp: f pow2_def)
  have hi: "q < pow2 (flog2 q + 1)" unfolding e2 by (rule p6)
  show ?thesis using lo hi by simp
qed

lemma round_half_even_near: "\<bar>of_int (round_half_even x) - x\<bar> \<le> 1 / 2"
proof -
  have "of_int \<lfloor>x\<rfloor> \<le> x" "x < of_int \<lfloor>x\<rfloor> + 1" by linarith+
  then show ?thesis
    by (auto simp: round_half_even_def Let_def abs_le_iff)
qed

text \<open>
  A finite result of \<open>rnd\<close> lies on the grid of the doubles around \<open>q\<close> and is at
  most half a grid step away from \<open>q\<close>.
\<close>

lemma rnd_nearest:
  assumes "rnd q = Fin v" and "q \<noteq> 0"
  shows "(\<exists>m. v = of_int m * pow2 (max (flog2 \<bar>q\<bar> - 52) (- 1074)))
    \<and> \<bar>v - q\<bar> \<le> pow2 (max (flog2 \<bar>q\<bar> - 52) (- 1074)) / 2"
proof -
  define P where "P = pow2 (max (flog2 \<bar>q\<bar> - 52) (- 1074))"
  define m where "m = round_half_even (\<bar>q\<bar> / P)"
  have P: "0 < P" unfolding P_def by (rule pow2_pos)
  have v: "v = (if 0 < q then of_int m * P else - (of_int m * P))"
    using assms by (simp add: rnd_def Let_def P_def m_def split: if_splits)
  have g: "\<exists>k. v = of_int k * P"
  proof (cases "0 < q")
    case True
    then show ?thesis using v by auto
  next
    case False
    then have "v = of_int (- m) * P" using v by simp
    then show ?thesis by blast
  qed
  have "\<bar>of_int m - \<bar>q\<bar> / P\<bar> \<le> 1 / 2"
    unfolding m_def by (rule round_half_even_near)
  then have "\<bar>of_int m - \<bar>q\<bar> / P\<bar> * P \<le> 1 / 2 * P"
    using P by (intro mult_right_mono) simp_all
  moreover have "\<bar>of_int m - \<bar>q\<bar> / P\<bar> * P = \<bar>of_int m * P - \<bar>q\<bar>\<bar>"
  proof -
    have "\<bar>of_int m - \<bar>q\<bar> / P\<bar> * P = \<bar>(of_int m - \<bar>q\<bar> / P) * P\<bar>"
      using P by (simp add: abs_mult)
    also have "(of_int m - \<bar>q\<bar> / P) * P = of_int m * P - \<bar>q\<bar>"
      using P by (simp add: field_simps)
    finally show ?thesis .
  qed
  ultimately have d: "\<bar>of_int m * P - \<bar>q\<bar>\<bar> \<le> P / 2" by simp
  have "\<bar>v - q\<bar> \<le> P / 2"
  proof (cases "0 < q")
    case True
    then show ?thesis using d v by simp
  next
    case False
    then have "\<bar>v - q\<bar> = \<bar>of_int m * P - \<bar>q\<bar>\<bar>" using v assms(2) by simp
    then show ?thesis using d by simp
  qed
  then show ?thesis using g unfolding P_def by blast
qed

lemma round_half_even_nonneg: "0 \<le> x \<Longrightarrow> 0 \<le> round_half_even x"
  by (auto simp: round_half_even_def Let_def)

text \<open>Rounding keeps the sign: a result that is not negative is rounded to one.\<close>

lemma rnd_nonneg:
  assumes "0 \<le> q"
  shows "jle (Fin 0) (rnd q)"
proof (cases "q = 0")
  case True
  then show ?thesis by (simp add: rnd_def)
next
  case False
  then have q: "0 < q" using assms by simp
  define p where "p = max (flog2 \<bar>q\<bar> - 52) (- 1074)"
  define v where "v = of_int (round_half_even (\<bar>q\<bar> / pow2 p)) * pow2 p"
  have "0 \<le> \<bar>q\<bar> / pow2 p"
    using pow2_pos [of p] by simp
  then have v: "0 \<le> v"
    unfolding v_def using round_half_even_nonneg pow2_pos [of p]
    by (intro mult_nonneg_nonneg) simp_all
  have "rnd q = (if 1024 \<le> flog2 v then PInf else Fin v)"
    using q by (simp add: rnd_def Let_def p_def v_def)
  then show ?thesis using v by simp
qed

lemma fsub_fadd_fneg: "fsub x y = fadd x (fneg y)"
  by (cases x; cases y) simp_all

lemma fadd_nonneg: "jle (Fin 0) x \<Longrightarrow> jle (Fin 0) y \<Longrightarrow> jle (Fin 0) (fadd x y)"
  by (cases x; cases y) (simp_all add: rnd_nonneg)

lemma fsub_nonneg:
  "jle (Fin 0) x \<Longrightarrow> jgt y x = False \<Longrightarrow> isNaN y = False \<Longrightarrow> y \<noteq> PInf
    \<Longrightarrow> jle (Fin 0) (fsub x y)"
  by (cases x; cases y) (simp_all add: rnd_nonneg jgt_def isNaN_def)

lemma balance_or_0_ok: "jle (Fin 0) b \<Longrightarrow> balance_or_0 b = b"
  by (cases b) (auto simp: balance_or_0_def)

lemma lit_1_10_value: "lit_1_10 = Fin (2476979795053773 / 2251799813685248)"
  by code_simp

lemma credited_nonneg:
  assumes a: "jle (Fin 0) a"
  shows "jle (Fin 0) (credited a)"
proof -
  have m: "jle (Fin 0) (fmul x (Fin c))" if "jle (Fin 0) x" and "0 < c" for x c
    using that by (cases x) (simp_all add: rnd_nonneg)
  have r: "jle (Fin 0) (Math_round x)" if "jle (Fin 0) x" for x
    using that by (cases x) simp_all
  have d: "jle (Fin 0) (fdiv x (Fin c))" if "jle (Fin 0) x" and "0 < c" for x c
    using that by (cases x) (simp_all add: rnd_nonneg)
  show ?thesis
    unfolding credited_def lit_1_10_value
    by (intro d r m a) simp_all
qed

text \<open>The figures of the specification's examples, in doubles.\<close>

lemma credited_1000: "credited (Fin 1000) = Fin 1100"
  by code_simp

lemma bonus_1000: "fsub (Fin 1100) (Fin 1000) = Fin 100"
  by code_simp

lemma credited_500: "credited (Fin 500) = Fin 550"
  by code_simp

section \<open>The concrete runs, evaluated\<close>

lemma st_signed_user:
  "users st_signed ''0700'' = Some \<lparr>phone = ''0700'', name = ''Asha'', salt = ''5a17'',
     passHash = ''c0de'', balance = Fin 0, txs = [], picture = None, createdAt = ''t0''\<rparr>"
  by code_simp

lemma st_funded_user:
  "users st_funded ''0700'' = Some \<lparr>phone = ''0700'', name = ''Asha'', salt = ''5a17'',
     passHash = ''c0de'', balance = Fin 500,
     txs = [\<lparr>tx_id = ''tx_d1'', tx_type = TDeposit, tx_amount = Fin 500,
              tx_createdAt = ''t1'', tx_meta = Note ''Manual deposit''\<rparr>],
     picture = None, createdAt = ''t0''\<rparr>"
  by code_simp

lemma st_pending_payment:
  "payments st_pending ''pay1'' = Some \<lparr>p_id = ''pay1'', p_phone = ''0700'', p_payTo = ''X'',
     p_amount = Fin 250, p_status = PENDING, p_createdAt = ''t1''\<rparr>"
  by code_simp

lemma st_cancelled_payment:
  "payments st_cancelled ''pay1'' = Some \<lparr>p_id = ''pay1'', p_phone = ''0700'', p_payTo = ''X'',
     p_amount = Fin 250, p_status = CANCELLED, p_createdAt = ''t1''\<rparr>"
  by code_simp

lemma st_invest_payment:
  "payments st_invest ''pay2'' = Some \<lparr>p_id = ''pay2'', p_phone = ''0700'', p_payTo = ''X'',
     p_amount = Fin 1000, p_status = PENDING, p_createdAt = ''t2''\<rparr>"
  by code_simp

lemma st_invest_user:
  "users st_invest ''0700'' = Some \<lparr>phone = ''0700'', name = ''Asha'', salt = ''5a17'',
     passHash = ''c0de'', balance = Fin 500,
     txs = [\<lparr>tx_id = ''tx_d1'', tx_type = TDeposit, tx_amount = Fin 500,
              tx_createdAt = ''t1'', tx_meta = Note ''Manual deposit''\<rparr>],
     picture = None, createdAt = ''t0''\<rparr>"
  by code_simp

lemma st_invest_timers:
  "timers st_invest = [\<lparr>t_payment = ''pay2'', t_user = ''0700'', t_amount = Fin 1000\<rparr>]"
  by code_simp

section \<open>Cancelling a payment\<close>

text \<open>
  Claim C8. For an existing payment, \<^verbatim>\<open>POST /api/payment/cancel/:id\<close> answers
  \<^verbatim>\<open>{ ok: true }\<close> exactly when the payment's status is PENDING (the file writes
  succeeding), and the status is then CANCELLED; for any other status, a payment
  already cancelled or already resolved included, it answers \<^verbatim>\<open>cannot cancel\<close> and
  the whole state is as before.
\<close>

theorem cancel_only_when_pending:
  assumes "payments st pid = Some p"
  shows "(fst (payment_cancel st pid DiskOk) = OkTrue \<longleftrightarrow> p_status p = PENDING)
    \<and> (p_status p = PENDING \<longrightarrow>
         payments (snd (payment_cancel st pid dk)) = (payments st)(pid \<mapsto> p\<lparr>p_status := CANCELLED\<rparr>)
         \<and> users (snd (payment_cancel st pid dk)) = users st)
    \<and> (p_status p \<noteq> PENDING \<longrightarrow> payment_cancel st pid dk = (CannotCancel, st))"
  using assms by (cases dk) (simp_all add: payment_cancel_def saveAll_def)

text \<open>A first cancel of a pending payment succeeds; a second one is refused.\<close>

theorem cancel_only_when_pending_witness:
  "payments st_pending ''pay1'' = Some \<lparr>p_id = ''pay1'', p_phone = ''0700'', p_payTo = ''X'',
     p_amount = Fin 250, p_status = PENDING, p_createdAt = ''t1''\<rparr>
   \<and> fst (payment_cancel st_pending ''pay1'' DiskOk) = OkTrue
   \<and> payments (snd (payment_cancel st_pending ''pay1'' DiskOk)) ''pay1'' =
       Some \<lparr>p_id = ''pay1'', p_phone = ''0700'', p_payTo = ''X'',
         p_amount = Fin 250, p_status = CANCELLED, p_createdAt = ''t1''\<rparr>
   \<and> payments st_cancelled ''pay1'' = Some \<lparr>p_id = ''pay1'', p_phone = ''0700'', p_payTo = ''X'',
         p_amount = Fin 250, p_status = CANCELLED, p_createdAt = ''t1''\<rparr>
   \<and> payment_cancel st_cancelled ''pay1'' DiskOk = (CannotCancel, st_cancelled)"
  using cancel_only_when_pending [OF st_pending_payment, of DiskOk]
    cancel_only_when_pending [OF st_cancelled_payment, of DiskOk]
    st_pending_payment st_cancelled_payment
  by simp

section \<open>The settlement callback\<close>

text \<open>
  Claim C1 says that the settlement task checks that the payment is still PENDING
  before it applies its outcome, so that a payment cancelled in the meantime keeps
  its status and the ledger is not touched. The callback of \<^verbatim>\<open>setTimeout\<close> has
  no such check. On the payment of 250 that was created and then cancelled, the
  timer is still pending; when it expires with a successful draw the status goes
  from CANCELLED to SUCCESS and 275 is credited to the account, with an invest
  transaction recorded; with a failed draw the status goes from CANCELLED to FAILED.
\<close>

theorem settlement_overrides_cancel:
  "map_option p_status (payments st_cancelled ''pay1'') = Some CANCELLED
   \<and> map_option balance (users st_cancelled ''0700'') = Some (Fin 0)
   \<and> map_option txs (users st_cancelled ''0700'') = Some []
   \<and> timers st_cancelled = [\<lparr>t_payment = ''pay1'', t_user = ''0700'', t_amount = Fin 250\<rparr>]
   \<and> map_option p_status (payments (snd (fire st_cancelled 0 True ''n1'' ''t2'' DiskOk)) ''pay1'')
       = Some SUCCESS
   \<and> map_option balance (users (snd (fire st_cancelled 0 True ''n1'' ''t2'' DiskOk)) ''0700'')
       = Some (Fin 275)
   \<and> map_option txs (users (snd (fire st_cancelled 0 True ''n1'' ''t2'' DiskOk)) ''0700'')
       = Some [\<lparr>tx_id = ''tx_n1'', tx_type = TInvest, tx_amount = Fin 275,
                tx_createdAt = ''t2'', tx_meta = Invested (Fin 250) (Fin 25)\<rparr>]
   \<and> map_option p_status (payments (snd (fire st_cancelled 0 False ''n1'' ''t2'' DiskOk)) ''pay1'')
       = Some FAILED"
  by code_simp

text \<open>
  The same for any state: whatever the status of the payment, the callback sets
  it to SUCCESS or FAILED.
\<close>

lemma settle_sets_status:
  assumes "payments st (t_payment t) = Some p" and "users st (t_user t) = Some u"
  shows "payments (snd (settle st t ok nid now dk)) (t_payment t)
    = Some (p\<lparr>p_status := (if ok then SUCCESS else FAILED)\<rparr>)"
  using assms by (cases dk) (simp_all add: settle_def saveAll_def Let_def)

text \<open>
  Claim C7, as amended. When the callback runs with a successful draw for a
  principal \<open>a\<close>, the amount credited is \<^verbatim>\<open>Math.round((a * 1.10) * 100) / 100\<close>
  computed in doubles (\<open>credited a\<close>); the balance becomes the double sum of the
  old balance and that amount; an invest transaction of that amount is appended,
  its meta recording the principal \<open>a\<close> and the bonus \<open>credited a - a\<close> (a double
  difference); the payment's status becomes SUCCESS. For the principal 1000 the
  credit is exactly 1100 and the bonus exactly 100.
\<close>

theorem settle_success_credit:
  assumes "payments st (t_payment t) = Some p" and "users st (t_user t) = Some u"
  shows "users (snd (settle st t True nid now dk)) (t_user t) =
      Some (u\<lparr>balance := fadd (balance_or_0 (balance u)) (credited (t_amount t)),
              txs := txs u @ [\<lparr>tx_id = ''tx_'' @ nid, tx_type = TInvest,
                tx_amount = credited (t_amount t), tx_createdAt = now,
                tx_meta = Invested (t_amount t) (fsub (credited (t_amount t)) (t_amount t))\<rparr>]\<rparr>)
    \<and> payments (snd (settle st t True nid now dk)) (t_payment t) = Some (p\<lparr>p_status := SUCCESS\<rparr>)
    \<and> credited (Fin 1000) = Fin 1100
    \<and> fsub (credited (Fin 1000)) (Fin 1000) = Fin 100"
proof -
  have eff: "users (snd (settle st t True nid now dk)) (t_user t) =
      Some (u\<lparr>balance := fadd (balance_or_0 (balance u)) (credited (t_amount t)),
              txs := txs u @ [\<lparr>tx_id = ''tx_'' @ nid, tx_type = TInvest,
                tx_amount = credited (t_amount t), tx_createdAt = now,
                tx_meta = Invested (t_amount t) (fsub (credited (t_amount t)) (t_amount t))\<rparr>]\<rparr>)
    \<and> payments (snd (settle st t True nid now dk)) (t_payment t) = Some (p\<lparr>p_status := SUCCESS\<rparr>)"
    using assms by (cases dk) (simp_all add: settle_def saveAll_def Let_def)
  have b: "fsub (credited (Fin 1000)) (Fin 1000) = Fin 100"
    unfolding credited_1000 by (rule bonus_1000)
  show ?thesis using eff b credited_1000 by blast
qed

text \<open>
  The funded account (balance 500) with its payment of 1000: after the successful
  settlement the balance is 1600 and the history ends with an invest transaction
  of 1100, principal 1000, bonus 100.
\<close>

theorem settle_success_credit_witness:
  "users (snd (settle st_invest \<lparr>t_payment = ''pay2'', t_user = ''0700'', t_amount = Fin 1000\<rparr>
       True ''n1'' ''t3'' DiskOk)) ''0700'' =
     Some \<lparr>phone = ''0700'', name = ''Asha'', salt = ''5a17'',
       passHash = ''c0de'', balance = Fin 1600,
       txs = [\<lparr>tx_id = ''tx_d1'', tx_type = TDeposit, tx_amount = Fin 500,
                tx_createdAt = ''t1'', tx_meta = Note ''Manual deposit''\<rparr>,
              \<lparr>tx_id = ''tx_n1'', tx_type = TInvest, tx_amount = Fin 1100,
                tx_createdAt = ''t3'', tx_meta = Invested (Fin 1000) (Fin 100)\<rparr>],
       picture = None, createdAt = ''t0''\<rparr>
   \<and> map_option p_status (payments (snd (settle st_invest
         \<lparr>t_payment = ''pay2'', t_user = ''0700'', t_amount = Fin 1000\<rparr>
         True ''n1'' ''t3'' DiskOk)) ''pay2'') = Some SUCCESS"
proof -
  have s: "fadd (Fin 500) (Fin 1100) = Fin 1600" by code_simp
  note th = settle_success_credit [of st_invest
      "\<lparr>t_payment = ''pay2'', t_user = ''0700'', t_amount = Fin 1000\<rparr>"
      _ _ "''n1''" "''t3''" DiskOk, simplified, OF st_invest_payment st_invest_user]
  have c: "credited (Fin 1000) = Fin 1100" using th by blast
  have b: "fsub (Fin 1100) (Fin 1000) = Fin 100" using th c by simp
  show ?thesis
    using th [THEN conjunct1] th [THEN conjunct2, THEN conjunct1]
    by (simp add: balance_or_0_def c b s del: fadd.simps fsub.simps)
qed

text \<open>
  Claim C7 as it is stated, with the credit equal to the half-up rounding of
  \<open>a * 1.10\<close> to two decimals, fails in doubles. For the principal
  \<^verbatim>\<open>250.00454545454542\<close> the product \<open>a * 1.10\<close> is below 275.005, whether it is
  taken exactly, with the double \<^verbatim>\<open>1.10\<close>, or as the double product; its half-up
  rounding is 275.00. The double product times 100 rounds to 27500.5, and the code
  credits 275.01.
\<close>

theorem credited_not_half_up:
  "credited (Fin (8796252951172039 / 35184372088832)) = Fin (1209506771018711 / 4398046511104)
   \<and> Fin (1209506771018711 / 4398046511104) = rnd (27501 / 100)
   \<and> Fin (8796252951172039 / 35184372088832) = rnd (25000454545454542 / 100000000000000)
   \<and> round2_half_up (8796252951172039 / 35184372088832 * (11 / 10)) = 275
   \<and> round2_half_up (8796252951172039 / 35184372088832 * (2476979795053773 / 2251799813685248)) = 275
   \<and> fmul (Fin (8796252951172039 / 35184372088832)) lit_1_10 = Fin (2418969561572311 / 8796093022208)
   \<and> round2_half_up (2418969561572311 / 8796093022208) = 275
   \<and> fmul (Fin (2418969561572311 / 8796093022208)) (Fin 100) = Fin (55001 / 2)
   \<and> Math_round (Fin (55001 / 2)) = Fin 27501"
  by code_simp

text \<open>
  With amounts of two decimals the code and the decimal reckoning part as well:
  for the principal 258.15 the decimal product is 283.965, which half-up rounding
  takes to 283.97; the double nearest to 258.15 lies below it, and the code
  credits 283.96.
\<close>

lemma credited_258_15:
  "credited (rnd (25815 / 100)) = rnd (28396 / 100)
   \<and> round2_half_up (25815 / 100 * (11 / 10)) = 28397 / 100
   \<and> rnd (28396 / 100) \<noteq> rnd (28397 / 100)"
  by code_simp

section \<open>The ledger\<close>

text \<open>
  Claim C2 says that after every sequence of successful deposits, withdrawals and
  settlement credits the balance is the sum of the signed amounts recorded, and
  is never negative. The handlers test an amount with \<^verbatim>\<open>isNaN(a) || a <= 0\<close>, which
  lets \<^verbatim>\<open>Infinity\<close> through. On the fresh account a deposit of \<^verbatim>\<open>Infinity\<close> is
  answered with the balance \<^verbatim>\<open>Infinity\<close>, a withdrawal of \<^verbatim>\<open>Infinity\<close> with the
  balance NaN, and a withdrawal of 5 then passes the balance guard
  (\<^verbatim>\<open>5 > NaN\<close> is false) and is answered with the balance -5: the balance is
  negative, and the recorded amounts \<open>+\<infinity>, -\<infinity>, -5\<close> do not sum to it.
\<close>

theorem unbounded_amount_breaks_ledger:
  "fst (deposit sn0 st_signed ''0700'' (JNum PInf) ''d1'' ''t1'' DiskOk) = OkBalance PInf
   \<and> fst (withdraw sn0 (snd (deposit sn0 st_signed ''0700'' (JNum PInf) ''d1'' ''t1'' DiskOk))
          ''0700'' (JNum PInf) ''w1'' ''t2'' DiskOk) = OkBalance NaN
   \<and> fst (withdraw sn0 st_unbounded ''0700'' (JNum (Fin 5)) ''w2'' ''t3'' DiskOk)
       = OkBalance (Fin (- 5))
   \<and> map_option balance
        (users (snd (withdraw sn0 st_unbounded ''0700'' (JNum (Fin 5)) ''w2'' ''t3'' DiskOk)) ''0700'')
       = Some (Fin (- 5))
   \<and> jlt (Fin (- 5)) (Fin 0)
   \<and> map_option (\<lambda>u. map tx_delta (txs u))
        (users (snd (withdraw sn0 st_unbounded ''0700'' (JNum (Fin 5)) ''w2'' ''t3'' DiskOk)) ''0700'')
       = Some [PInf, NInf, Fin (- 5)]
   \<and> map_option (\<lambda>u. ledger_sum (txs u))
        (users (snd (withdraw sn0 st_unbounded ''0700'' (JNum (Fin 5)) ''w2'' ''t3'' DiskOk)) ''0700'')
       = Some NaN"
  by code_simp

text \<open>
  With withdrawals of \<^verbatim>\<open>Infinity\<close> left out the invariant does hold, in the
  program's own arithmetic: each operation appends the signed amount by which it
  changes the balance, and the guard of the withdrawal keeps the balance from
  going below zero.
\<close>

lemma ledger_sum_snoc: "ledger_sum (ts @ [t]) = fadd (ledger_sum ts) (tx_delta t)"
  by (simp add: ledger_sum_def)

lemma signup_ledger_ok:
  "ledger_ok \<lparr>phone = ph, name = nm, salt = slt, passHash = hsh,
     balance = Fin 0, txs = [], picture = None, createdAt = now\<rparr>"
  by (simp add: ledger_ok_def ledger_sum_def)

lemma deposit_ledger_ok:
  assumes "users st ph = Some u" and "ledger_ok u"
  shows "\<exists>u'. users (snd (deposit sn st ph amount nid now dk)) ph = Some u' \<and> ledger_ok u'"
proof -
  have p: "isNaN a = False \<Longrightarrow> jle a (Fin 0) = False \<Longrightarrow> jle (Fin 0) a" for a
    by (cases a) (simp_all add: isNaN_def)
  show ?thesis
    using assms
    by (cases dk)
      (auto simp: deposit_def saveAll_def Let_def ledger_ok_def ledger_sum_snoc tx_delta_def
        balance_or_0_ok fadd_nonneg p)
qed

lemma withdraw_ledger_ok:
  assumes "users st ph = Some u" and "ledger_ok u" and "Number sn amount \<noteq> PInf"
  shows "\<exists>u'. users (snd (withdraw sn st ph amount nid now dk)) ph = Some u' \<and> ledger_ok u'"
  using assms
  by (cases dk)
    (auto simp: withdraw_def saveAll_def Let_def ledger_ok_def ledger_sum_snoc tx_delta_def
      balance_or_0_ok fsub_nonneg fsub_fadd_fneg [symmetric])

lemma settle_ledger_ok:
  assumes "users st ph = Some u" and "ledger_ok u" and "jle (Fin 0) a"
  shows "\<exists>u'. users (snd (settle st \<lparr>t_payment = pid, t_user = ph, t_amount = a\<rparr> ok nid now dk)) ph
           = Some u' \<and> ledger_ok u'"
  using assms
  by (cases dk; cases "payments st pid")
    (auto simp: settle_def saveAll_def Let_def ledger_ok_def ledger_sum_snoc tx_delta_def
      balance_or_0_ok fadd_nonneg credited_nonneg)

lemma jle_250_nonneg: "jle (Fin 250) a \<Longrightarrow> jle (Fin 0) a"
  by (cases a) simp_all

lemma ledger_conserved_bounded:
  assumes "users st ph = Some u" and "ledger_ok u" and "list_all (op_bounded sn) ops"
  shows "\<exists>u'. users (foldl (apply_op sn ph) st ops) ph = Some u' \<and> ledger_ok u'"
  using assms
proof (induction ops arbitrary: st u)
  case Nil
  then show ?case by simp
next
  case (Cons x xs)
  have "\<exists>u1. users (apply_op sn ph st x) ph = Some u1 \<and> ledger_ok u1"
  proof (cases x)
    case (OpDeposit amount nid now)
    then show ?thesis using deposit_ledger_ok [OF Cons.prems(1,2)] by simp
  next
    case (OpWithdraw amount nid now)
    then show ?thesis using withdraw_ledger_ok [OF Cons.prems(1,2)] Cons.prems(3) by simp
  next
    case (OpCredit pid a nid now)
    then show ?thesis using settle_ledger_ok [OF Cons.prems(1,2)] Cons.prems(3)
      by (simp add: jle_250_nonneg)
  qed
  then obtain u1 where "users (apply_op sn ph st x) ph = Some u1" and "ledger_ok u1" by blast
  then show ?case using Cons.IH [of "apply_op sn ph st x" u1] Cons.prems(3) by simp
qed

section \<open>Failing writes\<close>

text \<open>
  Claim C3, as amended. A deposit, a withdrawal, the creation and the cancelling
  of a payment change the objects in memory first and call \<^verbatim>\<open>saveAll\<close> afterwards,
  and nothing catches its exception. When a write fails the request ends with that
  exception, and the accounts and payments in memory are those the same request
  leaves when the writes succeed: the change is kept, not undone. An answer given
  before \<^verbatim>\<open>saveAll\<close> (a validation error) is the same in both cases.
\<close>

theorem failed_write_keeps_mutation:
  assumes "dk = UsersWriteFails \<or> dk = PaymentsWriteFails"
  shows "users (snd (deposit sn st ph amount nid now dk)) = users (snd (deposit sn st ph amount nid now DiskOk))
    \<and> payments (snd (deposit sn st ph amount nid now dk)) = payments (snd (deposit sn st ph amount nid now DiskOk))
    \<and> fst (deposit sn st ph amount nid now dk) = raised (fst (deposit sn st ph amount nid now DiskOk))
    \<and> users (snd (withdraw sn st ph amount nid now dk)) = users (snd (withdraw sn st ph amount nid now DiskOk))
    \<and> payments (snd (withdraw sn st ph amount nid now dk)) = payments (snd (withdraw sn st ph amount nid now DiskOk))
    \<and> fst (withdraw sn st ph amount nid now dk) = raised (fst (withdraw sn st ph amount nid now DiskOk))
    \<and> users (snd (payment_create sn st ph amount payTo nid now dk))
        = users (snd (payment_create sn st ph amount payTo nid now DiskOk))
    \<and> payments (snd (payment_create sn st ph amount payTo nid now dk))
        = payments (snd (payment_create sn st ph amount payTo nid now DiskOk))
    \<and> fst (payment_create sn st ph amount payTo nid now dk)
        = raised (fst (payment_create sn st ph amount payTo nid now DiskOk))
    \<and> users (snd (payment_cancel st pid dk)) = users (snd (payment_cancel st pid DiskOk))
    \<and> payments (snd (payment_cancel st pid dk)) = payments (snd (payment_cancel st pid DiskOk))
    \<and> fst (payment_cancel st pid dk) = raised (fst (payment_cancel st pid DiskOk))"
proof -
  have dep: "users (snd (deposit sn st ph amount nid now dk)) = users (snd (deposit sn st ph amount nid now DiskOk))
    \<and> payments (snd (deposit sn st ph amount nid now dk)) = payments (snd (deposit sn st ph amount nid now DiskOk))
    \<and> fst (deposit sn st ph amount nid now dk) = raised (fst (deposit sn st ph amount nid now DiskOk))"
    using assms by (auto simp: deposit_def saveAll_def Let_def raised_def split: option.splits)
  have wd: "users (snd (withdraw sn st ph amount nid now dk)) = users (snd (withdraw sn st ph amount nid now DiskOk))
    \<and> payments (snd (withdraw sn st ph amount nid now dk)) = payments (snd (withdraw sn st ph amount nid now DiskOk))
    \<and> fst (withdraw sn st ph amount nid now dk) = raised (fst (withdraw sn st ph amount nid now DiskOk))"
    using assms by (auto simp: withdraw_def saveAll_def Let_def raised_def split: option.splits)
  have cr: "users (snd (payment_create sn st ph amount payTo nid now dk))
        = users (snd (payment_create sn st ph amount payTo nid now DiskOk))
    \<and> payments (snd (payment_create sn st ph amount payTo nid now dk))
        = payments (snd (payment_create sn st ph amount payTo nid now DiskOk))
    \<and> fst (payment_create sn st ph amount payTo nid now dk)
        = raised (fst (payment_create sn st ph amount payTo nid now DiskOk))"
    using assms by (auto simp: payment_create_def saveAll_def Let_def raised_def split: option.splits)
  have ca: "users (snd (payment_cancel st pid dk)) = users (snd (payment_cancel st pid DiskOk))
    \<and> payments (snd (payment_cancel st pid dk)) = payments (snd (payment_cancel st pid DiskOk))
    \<and> fst (payment_cancel st pid dk) = raised (fst (payment_cancel st pid DiskOk))"
    using assms by (auto simp: payment_cancel_def saveAll_def Let_def raised_def split: option.splits)
  show ?thesis using dep wd cr ca by blast
qed

text \<open>
  A deposit of 500 whose first write fails, and a cancel whose second write fails:
  both end with the exception, the account holds 500 and the payment is CANCELLED.
\<close>

theorem failed_write_keeps_mutation_witness:
  "fst (deposit sn0 st_signed ''0700'' (JNum (Fin 500)) ''d1'' ''t1'' UsersWriteFails) = Thrown
   \<and> users (snd (deposit sn0 st_signed ''0700'' (JNum (Fin 500)) ''d1'' ''t1'' UsersWriteFails))
       = users st_funded
   \<and> users st_funded ''0700'' = Some \<lparr>phone = ''0700'', name = ''Asha'', salt = ''5a17'',
       passHash = ''c0de'', balance = Fin 500,
       txs = [\<lparr>tx_id = ''tx_d1'', tx_type = TDeposit, tx_amount = Fin 500,
                tx_createdAt = ''t1'', tx_meta = Note ''Manual deposit''\<rparr>],
       picture = None, createdAt = ''t0''\<rparr>
   \<and> fst (payment_cancel st_pending ''pay1'' PaymentsWriteFails) = Thrown
   \<and> payments (snd (payment_cancel st_pending ''pay1'' PaymentsWriteFails)) = payments st_cancelled"
proof -
  have d: "fst (deposit sn0 st_signed ''0700'' (JNum (Fin 500)) ''d1'' ''t1'' DiskOk) = OkBalance (Fin 500)"
    by code_simp
  have c: "fst (payment_cancel st_pending ''pay1'' DiskOk) = OkTrue"
    by code_simp
  show ?thesis
    using failed_write_keeps_mutation [of UsersWriteFails sn0 st_signed "''0700''" "JNum (Fin 500)"
        "''d1''" "''t1''" "''X''" "''pay1''"]
      failed_write_keeps_mutation [of PaymentsWriteFails sn0 st_pending "''0700''" "JNum (Fin 500)"
        "''d1''" "''t1''" "''X''" "''pay1''"]
      st_funded_user
    by (simp add: d c raised_def st_funded_def st_cancelled_def)
qed

text \<open>
  Claim C3 as it is stated, with the state in memory unchanged after a failed
  write, fails: the deposit of 500 whose write fails leaves the balance at 500 and
  one transaction in the history.
\<close>

theorem deposit_failed_write_mutates:
  "map_option balance (users st_signed ''0700'') = Some (Fin 0)
   \<and> map_option txs (users st_signed ''0700'') = Some []
   \<and> fst (deposit sn0 st_signed ''0700'' (JNum (Fin 500)) ''d1'' ''t1'' UsersWriteFails) = Thrown
   \<and> map_option balance
        (users (snd (deposit sn0 st_signed ''0700'' (JNum (Fin 500)) ''d1'' ''t1'' UsersWriteFails)) ''0700'')
       = Some (Fin 500)
   \<and> map_option (\<lambda>u. length (txs u))
        (users (snd (deposit sn0 st_signed ''0700'' (JNum (Fin 500)) ''d1'' ''t1'' UsersWriteFails)) ''0700'')
       = Some 1"
  by code_simp

section \<open>Validation of amounts\<close>

text \<open>
  Claim C4, as amended. For an existing account, a deposit whose amount is falsy
  in JavaScript (absent, \<^verbatim>\<open>null\<close>, \<^verbatim>\<open>false\<close>, the number 0, NaN, the empty string)
  is answered \<^verbatim>\<open>missing\<close>; a deposit whose amount is present, and whose numeric
  value is not \<^verbatim>\<open>Infinity\<close>, is answered \<^verbatim>\<open>invalid amount\<close> exactly when that value
  is not a positive finite number; and a deposit answered \<^verbatim>\<open>invalid amount\<close> or
  \<^verbatim>\<open>missing\<close> leaves the whole state as it was.
\<close>

theorem deposit_invalid_amount_iff:
  assumes "users st ph = Some u" and "ph \<noteq> []"
  shows "(falsy amount \<longrightarrow> deposit sn st ph amount nid now dk = (Missing, st))
    \<and> (\<not> falsy amount \<and> Number sn amount \<noteq> PInf \<longrightarrow>
          (fst (deposit sn st ph amount nid now dk) = InvalidAmount
             \<longleftrightarrow> \<not> (\<exists>x. Number sn amount = Fin x \<and> 0 < x)))
    \<and> (fst (deposit sn st ph amount nid now dk) = InvalidAmount
          \<longrightarrow> snd (deposit sn st ph amount nid now dk) = st)"
proof -
  have k: "Number sn amount \<noteq> PInf \<Longrightarrow>
    (isNaN (Number sn amount) \<or> jle (Number sn amount) (Fin 0))
      = (\<not> (\<exists>x. Number sn amount = Fin x \<and> 0 < x))"
    by (cases "Number sn amount") (auto simp: isNaN_def)
  show ?thesis
    using assms k
    by (cases dk) (auto simp add: deposit_def saveAll_def Let_def)
qed

text \<open>
  A negative number and a string that is no number are invalid amounts, the empty
  string is a missing one, and 500 is accepted.
\<close>

theorem deposit_invalid_amount_iff_witness:
  "deposit sn0 st_signed ''0700'' (JNum (Fin (- 5))) ''d1'' ''t1'' DiskOk = (InvalidAmount, st_signed)
   \<and> deposit sn0 st_signed ''0700'' (JStr ''abc'') ''d1'' ''t1'' DiskOk = (InvalidAmount, st_signed)
   \<and> deposit sn0 st_signed ''0700'' (JStr []) ''d1'' ''t1'' DiskOk = (Missing, st_signed)
   \<and> fst (deposit sn0 st_signed ''0700'' (JNum (Fin 500)) ''d1'' ''t1'' DiskOk) \<noteq> InvalidAmount"
  using deposit_invalid_amount_iff [OF st_signed_user, of "JNum (Fin (- 5))" sn0 "''d1''" "''t1''" DiskOk]
    deposit_invalid_amount_iff [OF st_signed_user, of "JStr ''abc''" sn0 "''d1''" "''t1''" DiskOk]
    deposit_invalid_amount_iff [OF st_signed_user, of "JStr []" sn0 "''d1''" "''t1''" DiskOk]
    deposit_invalid_amount_iff [OF st_signed_user, of "JNum (Fin 500)" sn0 "''d1''" "''t1''" DiskOk]
  by (simp add: sn0_def prod_eq_iff)

text \<open>
  Claim C4 as it is stated, with a zero amount rejected as an invalid amount,
  fails: for the existing account the amount 0 is answered \<^verbatim>\<open>missing\<close>, by the
  test \<^verbatim>\<open>!amount\<close> that comes first.
\<close>

theorem deposit_zero_is_missing:
  "users st_signed ''0700'' \<noteq> None
   \<and> deposit sn0 st_signed ''0700'' (JNum (Fin 0)) ''d1'' ''t1'' DiskOk = (Missing, st_signed)
   \<and> fst (deposit sn0 st_signed ''0700'' (JNum (Fin 0)) ''d1'' ''t1'' DiskOk) \<noteq> InvalidAmount"
  by (simp add: st_signed_user deposit_def)

text \<open>
  Claim C5, as amended. For an existing account and a destination given, the
  creation of a payment whose amount is falsy in JavaScript (the number 0
  included) is answered \<^verbatim>\<open>missing\<close>; with an amount that is present it is answered
  \<^verbatim>\<open>invalid amount, minimum 250\<close> exactly when the numeric value of the amount is
  NaN or below 250, and the state is then as it was; otherwise, the writes
  succeeding, it answers with the payment id, and the payment is stored under
  that id in status PENDING. So 249.99 is refused and 250.00 accepted.
\<close>

theorem create_invalid_amount_iff:
  assumes "users st ph = Some u" and "ph \<noteq> []" and "payTo \<noteq> []"
  shows "(falsy amount \<longrightarrow> payment_create sn st ph amount payTo nid now dk = (Missing, st))
    \<and> (\<not> falsy amount \<longrightarrow>
          (fst (payment_create sn st ph amount payTo nid now dk) = InvalidAmountMin
             \<longleftrightarrow> isNaN (Number sn amount) \<or> jlt (Number sn amount) (Fin 250))
        \<and> (isNaN (Number sn amount) \<or> jlt (Number sn amount) (Fin 250)
             \<longrightarrow> snd (payment_create sn st ph amount payTo nid now dk) = st)
        \<and> (\<not> isNaN (Number sn amount) \<and> \<not> jlt (Number sn amount) (Fin 250)
             \<longrightarrow> fst (payment_create sn st ph amount payTo nid now DiskOk) = OkPayment nid
               \<and> payments (snd (payment_create sn st ph amount payTo nid now DiskOk)) nid
                   = Some \<lparr>p_id = nid, p_phone = ph, p_payTo = payTo,
                       p_amount = Number sn amount, p_status = PENDING, p_createdAt = now\<rparr>))"
  using assms
  by (cases dk) (simp_all add: payment_create_def saveAll_def Let_def)

text \<open>
  The amount 249.99 (its double) is refused, 250 is accepted and stored PENDING,
  and \<^verbatim>\<open>null\<close> is a missing amount.
\<close>

theorem create_invalid_amount_iff_witness:
  "payment_create sn0 st_signed ''0700'' (JNum (rnd (24999 / 100))) ''X'' ''pay2'' ''t1'' DiskOk
     = (InvalidAmountMin, st_signed)
   \<and> fst (payment_create sn0 st_signed ''0700'' (JNum (Fin 250)) ''X'' ''pay2'' ''t1'' DiskOk)
       = OkPayment ''pay2''
   \<and> payments (snd (payment_create sn0 st_signed ''0700'' (JNum (Fin 250)) ''X'' ''pay2'' ''t1'' DiskOk)) ''pay2''
       = Some \<lparr>p_id = ''pay2'', p_phone = ''0700'', p_payTo = ''X'',
             p_amount = Fin 250, p_status = PENDING, p_createdAt = ''t1''\<rparr>
   \<and> payment_create sn0 st_signed ''0700'' JNull ''X'' ''pay2'' ''t1'' DiskOk = (Missing, st_signed)"
proof -
  have r: "rnd (24999 / 100) = Fin (1099467647310889 / 4398046511104)" by code_simp
  show ?thesis
    using create_invalid_amount_iff [OF st_signed_user, of "''X''" "JNum (rnd (24999 / 100))" sn0 "''pay2''" "''t1''" DiskOk]
      create_invalid_amount_iff [OF st_signed_user, of "''X''" "JNum (Fin 250)" sn0 "''pay2''" "''t1''" DiskOk]
      create_invalid_amount_iff [OF st_signed_user, of "''X''" JNull sn0 "''pay2''" "''t1''" DiskOk]
    by (simp add: r isNaN_def prod_eq_iff)
qed

text \<open>
  Claim C5 as it is stated, with every amount below 250 refused as an invalid
  amount, fails: for the existing account the amount 0 is below 250 and is
  answered \<^verbatim>\<open>missing\<close>.
\<close>

theorem create_zero_is_missing:
  "users st_signed ''0700'' \<noteq> None
   \<and> jlt (Number sn0 (JNum (Fin 0))) (Fin 250)
   \<and> payment_create sn0 st_signed ''0700'' (JNum (Fin 0)) ''X'' ''pay2'' ''t1'' DiskOk
       = (Missing, st_signed)
   \<and> fst (payment_create sn0 st_signed ''0700'' (JNum (Fin 0)) ''X'' ''pay2'' ''t1'' DiskOk)
       \<noteq> InvalidAmountMin"
  by (simp add: st_signed_user payment_create_def)

section \<open>Withdrawals\<close>

text \<open>
  Claim C6. For an existing account whose balance is not negative, a withdrawal
  of an amount greater than the balance is answered \<^verbatim>\<open>insufficient balance\<close>, and
  the whole state, the balance and the history of the account included, is as
  before.
\<close>

theorem withdraw_insufficient:
  assumes "users st ph = Some u" and "ph \<noteq> []" and "\<not> falsy amount"
    and "\<not> jlt (balance u) (Fin 0)" and "jgt (Number sn amount) (balance u)"
  shows "withdraw sn st ph amount nid now dk = (InsufficientBalance, st)"
proof -
  have "\<not> isNaN (Number sn amount) \<and> \<not> jle (Number sn amount) (Fin 0)"
    using assms(4,5)
    by (cases "Number sn amount"; cases "balance u") (auto simp: jgt_def isNaN_def)
  then show ?thesis using assms by (simp add: withdraw_def)
qed

text \<open>With a balance of 500, a withdrawal of 500.01 is refused.\<close>

theorem withdraw_insufficient_witness:
  "jgt (Number sn0 (JNum (rnd (50001 / 100)))) (Fin 500)
   \<and> withdraw sn0 st_funded ''0700'' (JNum (rnd (50001 / 100))) ''w1'' ''t2'' DiskOk
       = (InsufficientBalance, st_funded)"
proof -
  have r: "rnd (50001 / 100) = Fin (2199067236017111 / 4398046511104)" by code_simp
  show ?thesis
    using withdraw_insufficient [OF st_funded_user, of "JNum (rnd (50001 / 100))" sn0 "''w1''" "''t2''" DiskOk]
    by (simp add: r jgt_def)
qed

text \<open>
  Claim C9. For an existing account with a positive (finite) balance, a withdrawal
  of exactly the balance succeeds, the guard \<^verbatim>\<open>a > user.balance\<close> being strict: the
  answer carries the new balance 0, the account's balance is 0 and the withdrawal
  is appended to its history.
\<close>

theorem withdraw_whole_balance:
  assumes "users st ph = Some u" and "ph \<noteq> []" and "\<not> falsy amount"
    and "balance u = Fin b" and "0 < b" and "Number sn amount = Fin b"
  shows "fst (withdraw sn st ph amount nid now DiskOk) = OkBalance (Fin 0)
    \<and> users (snd (withdraw sn st ph amount nid now DiskOk)) ph =
        Some (u\<lparr>balance := Fin 0,
                txs := txs u @ [\<lparr>tx_id = ''tx_'' @ nid, tx_type = TWithdraw, tx_amount = Fin b,
                  tx_createdAt = now, tx_meta = Note ''Manual withdrawal''\<rparr>]\<rparr>)"
  using assms
  by (simp add: withdraw_def saveAll_def isNaN_def jgt_def balance_or_0_def rnd_def Let_def)

text \<open>With a balance of 500, a withdrawal of 500 leaves 0.\<close>

theorem withdraw_whole_balance_witness:
  "fst (withdraw sn0 st_funded ''0700'' (JNum (Fin 500)) ''w1'' ''t2'' DiskOk) = OkBalance (Fin 0)
   \<and> map_option balance (users (snd (withdraw sn0 st_funded ''0700'' (JNum (Fin 500)) ''w1'' ''t2'' DiskOk)) ''0700'')
       = Some (Fin 0)"
  using withdraw_whole_balance [OF st_funded_user, of "JNum (Fin 500)" 500 sn0 "''w1''" "''t2''"]
  by simp

section \<open>Creating a payment\<close>

text \<open>
  Claim C10. The creation of a payment does not look at the balance of the
  account nor change any account: for an existing account, a destination and an
  amount of at least 250, the answer is the same whatever balance the account
  holds, it is the payment id when the writes succeed, the accounts are as before,
  and the payments are as before but for the new entry in status PENDING.
\<close>

theorem create_ignores_balance:
  assumes "users st ph = Some u" and "ph \<noteq> []" and "payTo \<noteq> []" and "\<not> falsy amount"
    and "\<not> isNaN (Number sn amount)" and "\<not> jlt (Number sn amount) (Fin 250)"
  shows "fst (payment_create sn st ph amount payTo nid now DiskOk) = OkPayment nid
    \<and> fst (payment_create sn (st\<lparr>users := (users st)(ph \<mapsto> u\<lparr>balance := b\<rparr>)\<rparr>)
             ph amount payTo nid now dk)
        = fst (payment_create sn st ph amount payTo nid now dk)
    \<and> users (snd (payment_create sn st ph amount payTo nid now dk)) = users st
    \<and> payments (snd (payment_create sn st ph amount payTo nid now dk))
        = (payments st)(nid \<mapsto> \<lparr>p_id = nid, p_phone = ph, p_payTo = payTo,
             p_amount = Number sn amount, p_status = PENDING, p_createdAt = now\<rparr>)"
  using assms
  by (cases dk) (simp_all add: payment_create_def saveAll_def Let_def)

text \<open>A payment of 1000 is accepted for the fresh account, whose balance is 0.\<close>

theorem create_ignores_balance_witness:
  "map_option balance (users st_signed ''0700'') = Some (Fin 0)
   \<and> fst (payment_create sn0 st_signed ''0700'' (JNum (Fin 1000)) ''X'' ''pay2'' ''t1'' DiskOk)
       = OkPayment ''pay2''
   \<and> users (snd (payment_create sn0 st_signed ''0700'' (JNum (Fin 1000)) ''X'' ''pay2'' ''t1'' DiskOk))
       = users st_signed
   \<and> payments (snd (payment_create sn0 st_signed ''0700'' (JNum (Fin 1000)) ''X'' ''pay2'' ''t1'' DiskOk)) ''pay2''
       = Some \<lparr>p_id = ''pay2'', p_phone = ''0700'', p_payTo = ''X'',
             p_amount = Fin 1000, p_status = PENDING, p_createdAt = ''t1''\<rparr>"
  using create_ignores_balance [OF st_signed_user, of "''X''" "JNum (Fin 1000)" sn0 "''pay2''" "''t1''" "Fin 0" DiskOk]
    st_signed_user
  by (simp add: isNaN_def)

end
